theory Spec2Isabelle
  imports Main "HOL-Library.AList" "HOL-Library.Char_ord" "HOL-Library.List_Lexorder"
begin

section \<open>The SonarQube webhook resource (sonarqube/resource\_sonarqube\_webhook.go)\<close>

text \<open>
  The file holds the five lifecycle functions of one Terraform resource. Each of them
  reads and mutates a \<^verbatim>\<open>*schema.ResourceData\<close>, builds a URL from the provider
  configuration, calls \<^verbatim>\<open>httpRequestHelper\<close> and decodes a JSON body. The embedding
  keeps these steps in the order of the source:
  \<^item> the resource data is a record that is passed in and returned updated;
  \<^item> the HTTP exchange is an explicit history of the requests issued so far, and the
    client and server together are a function from that history and the next request
    to the outcome of the exchange;
  \<^item> a Go \<^verbatim>\<open>error\<close> is a value of the datatype \<open>error\<close>, and every function returns
    \<open>error option\<close> (\<open>None\<close> is Go's \<^verbatim>\<open>nil\<close>) together with the resource data and the
    history as they are when the function returns.
\<close>

subsection \<open>Response structs\<close>

record Webhook =
  Key :: string
  Name :: string
  URL :: string
  Secret :: string

record GetWebhooks =
  Webhooks :: "Webhook list"

record CreateWebhookResponse =
  Webhook :: Webhook

subsection \<open>Errors\<close>

text \<open>
  \<open>Errorf format arg\<close> is \<^verbatim>\<open>fmt.Errorf(format, arg)\<close>; the format string is kept as
  written in the source and the argument, when there is one, is the error printed by
  \<^verbatim>\<open>%+v\<close>. \<open>DecodeError\<close> is whatever \<^verbatim>\<open>encoding/json\<close> reports. The other two
  constructors are the errors of \<^verbatim>\<open>httpRequestHelper\<close>; both carry the operation name
  the caller passed.
\<close>

datatype error =
    TransportError string string
  | StatusError string nat nat
  | DecodeError string
  | Errorf string "error option"

subsection \<open>net/url\<close>

text \<open>
  \<^verbatim>\<open>url.Values\<close> is a \<^verbatim>\<open>map[string][]string\<close>: an association list with distinct
  keys. \<open>Add\<close> appends a value to the key's slice. \<open>Encode\<close> writes the pairs sorted by
  key, \<^verbatim>\<open>key=value\<close> joined by \<^verbatim>\<open>&\<close>, both sides query-escaped.
\<close>

type_synonym Values = "(string \<times> string list) list"

definition Add :: "Values \<Rightarrow> string \<Rightarrow> string \<Rightarrow> Values" where
  "Add v key val =
     AList.update key ((case map_of v key of None \<Rightarrow> [] | Some vs \<Rightarrow> vs) @ [val]) v"

text \<open>
  \<^verbatim>\<open>shouldEscape\<close> in mode \<^verbatim>\<open>encodeQueryComponent\<close>: letters, digits and
  \<^verbatim>\<open>-_.~\<close> are written as they are, every other byte is escaped (a space as
  \<^verbatim>\<open>+\<close>, the rest as \<^verbatim>\<open>%XX\<close>).
\<close>

definition shouldEscape :: "char \<Rightarrow> bool" where
  "shouldEscape c =
     (c \<notin> set ''abcdefghijklmnopqrstuvwxyzABCDEFGHIJKLMNOPQRSTUVWXYZ0123456789-_.~'')"

definition upperhex :: string where
  "upperhex = ''0123456789ABCDEF''"

definition escape_byte :: "char \<Rightarrow> string" where
  "escape_byte c =
     (if shouldEscape c then
        (if c = CHR '' '' then ''+''
         else [CHR ''%'', upperhex ! ((of_char c :: nat) div 16), upperhex ! ((of_char c :: nat) mod 16)])
      else [c])"

definition QueryEscape :: "string \<Rightarrow> string" where
  "QueryEscape s = concat (map escape_byte s)"

fun join_amp :: "string list \<Rightarrow> string" where
  "join_amp [] = []"
| "join_amp [x] = x"
| "join_amp (x # y # ys) = x @ ''&'' @ join_amp (y # ys)"

definition Encode :: "Values \<Rightarrow> string" where
  "Encode v =
     join_amp (concat (map (\<lambda>(k, vs). map (\<lambda>x. QueryEscape k @ ''='' @ QueryEscape x) vs)
                           (sort_key fst v)))"

text \<open>
  Of a \<^verbatim>\<open>url.URL\<close> the functions below assign \<^verbatim>\<open>Path\<close> and \<^verbatim>\<open>RawQuery\<close>; scheme,
  user and host come from the provider configuration and are carried along in \<open>Base\<close>.
\<close>

record net_url =
  Base :: string
  Path :: string
  RawQuery :: string

subsection \<open>The HTTP exchange\<close>

text \<open>
  \<^verbatim>\<open>encoding/json\<close> is not part of the repository. A response body is represented by
  what \<^verbatim>\<open>json.NewDecoder(body).Decode\<close> makes of it for each of the two structs it is
  decoded into here: the decoder's error, or the filled struct.
\<close>

datatype body = Body (Decode_CreateWebhookResponse: "error + CreateWebhookResponse")
                     (Decode_GetWebhooks: "error + GetWebhooks")

record request =
  Method :: string
  Target :: net_url

datatype http_result = Failed string | Response nat body

text \<open>
  The client handle stands for the client, the network and the server: given the requests
  issued so far and the next one, it fails at transport level or answers with a status
  and a body.
\<close>

type_synonym httpClient_t = "request list \<Rightarrow> request \<Rightarrow> http_result"

text \<open>
  Modelled from the spec: the declaration of \<^verbatim>\<open>ProviderConfiguration\<close> is in another
  file of the package, which is not among the sources. The specification describes it as
  "a provider-configuration object exposing a base URL and an authenticated HTTP client",
  "treated as read-only shared configuration, never mutated by this component". The two
  fields are the ones the functions read, \<^verbatim>\<open>m.(*ProviderConfiguration).httpClient\<close> and
  \<^verbatim>\<open>.sonarQubeURL\<close>; the URL is copied on assignment, so that setting the path and the
  query of the copy leaves the configuration as it is.
\<close>

record ProviderConfiguration =
  httpClient :: httpClient_t
  sonarQubeURL :: net_url

abbreviation StatusOK :: nat where
  "StatusOK \<equiv> 200"

abbreviation StatusNoContent :: nat where
  "StatusNoContent \<equiv> 204"

text \<open>
  Modelled from the spec: \<^verbatim>\<open>httpRequestHelper\<close> is defined in another file of the
  package, which is not among the sources. The specification describes it as "a generic
  HTTP-request helper that performs the call, validates the expected status code, and
  returns the raw response body on success or a descriptive error otherwise", whose
  errors are "transport/status errors - unexpected HTTP status or network failure,
  surfaced verbatim with operation name context". Its arguments are those of the call
  sites: client, method, URL, expected status, operation name. The call is recorded in
  the history whether it succeeds or not.
\<close>

definition httpRequestHelper ::
  "httpClient_t \<Rightarrow> string \<Rightarrow> net_url \<Rightarrow> nat \<Rightarrow> string \<Rightarrow> request list
     \<Rightarrow> (error + body) \<times> request list" where
  "httpRequestHelper client method u expected caller h =
     (let req = \<lparr>Method = method, Target = u\<rparr> in
      case client h req of
        Failed cause \<Rightarrow> (Inl (TransportError caller cause), h @ [req])
      | Response status b \<Rightarrow>
          if status = expected then (Inr b, h @ [req])
          else (Inl (StatusError caller expected status), h @ [req]))"

subsection \<open>schema.ResourceData\<close>

text \<open>
  The resource data holds the identifier and the string attributes of the schema
  (\<^verbatim>\<open>key\<close>, \<^verbatim>\<open>project\<close>, \<^verbatim>\<open>name\<close>, \<^verbatim>\<open>url\<close>, \<^verbatim>\<open>secret\<close>), read and written by name.
  \<open>d_Get\<close> gives the zero value \<^verbatim>\<open>""\<close> for an attribute that is not set; \<open>d_GetOk\<close>
  reports in its second component whether the attribute is set to a non-zero value.
\<close>

record ResourceData =
  ident :: string
  attrs :: "string \<rightharpoonup> string"

definition d_Id :: "ResourceData \<Rightarrow> string" where
  "d_Id d = ident d"

definition d_SetId :: "ResourceData \<Rightarrow> string \<Rightarrow> ResourceData" where
  "d_SetId d v = d\<lparr>ident := v\<rparr>"

definition d_Get :: "ResourceData \<Rightarrow> string \<Rightarrow> string" where
  "d_Get d k = (case attrs d k of None \<Rightarrow> [] | Some v \<Rightarrow> v)"

definition d_GetOk :: "ResourceData \<Rightarrow> string \<Rightarrow> string \<times> bool" where
  "d_GetOk d k = (d_Get d k, d_Get d k \<noteq> [])"

definition d_Set :: "ResourceData \<Rightarrow> string \<Rightarrow> string \<Rightarrow> ResourceData" where
  "d_Set d k v = d\<lparr>attrs := (attrs d)(k \<mapsto> v)\<rparr>"

subsection \<open>Read\<close>

text \<open>
  Each lifecycle function starts by copying the configured URL and assigning its path and
  query. These first lines are a definition of their own (\<open>listURL\<close>, \<open>createURL\<close>,
  \<open>updateURL\<close>, \<open>deleteURL\<close>), so that the request a function sends can be named.
\<close>

definition listURL :: "ResourceData \<Rightarrow> ProviderConfiguration \<Rightarrow> net_url" where
  "listURL d m =
     (let u = (sonarQubeURL m)\<lparr>Path := ''api/webhooks/list''\<rparr> in
      case d_GetOk d ''project'' of
        (project, ok) \<Rightarrow>
          if ok then u\<lparr>RawQuery := Encode [(''project'', [project])]\<rparr> else u)"

text \<open>
  The loop of \<^verbatim>\<open>resourceSonarqubeWebhookRead\<close> over \<^verbatim>\<open>getWebhooks.Webhooks\<close>: it
  returns the resource data and \<^verbatim>\<open>webhookFound\<close>. The \<^verbatim>\<open>break\<close> is the absence of a
  recursive call in the first branch.
\<close>

fun scan_webhooks :: "ResourceData \<Rightarrow> Webhook list \<Rightarrow> ResourceData \<times> bool" where
  "scan_webhooks d [] = (d, False)"
| "scan_webhooks d (val # rest) =
     (if d_Id d = Key val then
        (let d = d_SetId d (Key val);
             d = d_Set d ''key'' (Key val);
             d = d_Set d ''name'' (Name val);
             d = d_Set d ''url'' (URL val);
             d = d_Set d ''secret'' (Secret val)
         in (d, True))
      else scan_webhooks d rest)"

definition resourceSonarqubeWebhookRead ::
  "ResourceData \<Rightarrow> ProviderConfiguration \<Rightarrow> request list
     \<Rightarrow> error option \<times> ResourceData \<times> request list" where
  "resourceSonarqubeWebhookRead d m h =
     (case httpRequestHelper (httpClient m) ''GET'' (listURL d m) StatusOK
             ''resourceSonarqubeWebhookRead'' h of
        (Inl err, h') \<Rightarrow> (Some err, d, h')
      | (Inr resp, h') \<Rightarrow>
          (case Decode_GetWebhooks resp of
             Inl err \<Rightarrow>
               (Some (Errorf ''resourceSonarqubeWebhookRead: Failed to decode json into struct: %+v''
                        (Some err)), d, h')
           | Inr getWebhooks \<Rightarrow>
               (case scan_webhooks d (Webhooks getWebhooks) of
                  (d', webhookFound) \<Rightarrow>
                    (None, if \<not> webhookFound then d_SetId d' [] else d', h'))))"

subsection \<open>Create\<close>

definition createURL :: "ResourceData \<Rightarrow> ProviderConfiguration \<Rightarrow> net_url" where
  "createURL d m =
     (let u = (sonarQubeURL m)\<lparr>Path := ''api/webhooks/create''\<rparr>;
          rawQuery = [(''name'', [d_Get d ''name'']), (''url'', [d_Get d ''url''])];
          rawQuery = (case d_GetOk d ''project'' of
                        (project, ok) \<Rightarrow> if ok then Add rawQuery ''project'' project else rawQuery);
          rawQuery = (case d_GetOk d ''secret'' of
                        (secret, ok) \<Rightarrow> if ok then Add rawQuery ''secret'' secret else rawQuery)
      in u\<lparr>RawQuery := Encode rawQuery\<rparr>)"

definition resourceSonarqubeWebhookCreate ::
  "ResourceData \<Rightarrow> ProviderConfiguration \<Rightarrow> request list
     \<Rightarrow> error option \<times> ResourceData \<times> request list" where
  "resourceSonarqubeWebhookCreate d m h =
     (case httpRequestHelper (httpClient m) ''POST'' (createURL d m) StatusOK
             ''resourceSonarqubeWebhookCreate'' h of
        (Inl err, h') \<Rightarrow> (Some err, d, h')
      | (Inr resp, h') \<Rightarrow>
          (case Decode_CreateWebhookResponse resp of
             Inl err \<Rightarrow>
               (Some (Errorf ''resourceSonarqubeWebhookCreate; Failed to decode json into struct: %+v''
                        (Some err)), d, h')
           | Inr webhookResponse \<Rightarrow>
               if Key (Webhook webhookResponse) = [] then
                 (Some (Errorf ''resourceSonarqubeWebhookCreate: Create response did not contain the webhook's key''
                          None), d, h')
               else resourceSonarqubeWebhookRead
                      (d_SetId d (Key (Webhook webhookResponse))) m h'))"

subsection \<open>Update\<close>

definition updateURL :: "ResourceData \<Rightarrow> ProviderConfiguration \<Rightarrow> net_url" where
  "updateURL d m =
     (let u = (sonarQubeURL m)\<lparr>Path := ''api/webhooks/update''\<rparr>;
          rawQuery = [(''webhook'', [d_Id d]), (''name'', [d_Get d ''name'']),
                      (''url'', [d_Get d ''url''])];
          rawQuery = (case d_GetOk d ''project'' of
                        (project, ok) \<Rightarrow> if ok then Add rawQuery ''project'' project else rawQuery);
          rawQuery = (case d_GetOk d ''secret'' of
                        (secret, ok) \<Rightarrow> if ok then Add rawQuery ''secret'' secret else rawQuery)
      in u\<lparr>RawQuery := Encode rawQuery\<rparr>)"

definition resourceSonarqubeWebhookUpdate ::
  "ResourceData \<Rightarrow> ProviderConfiguration \<Rightarrow> request list
     \<Rightarrow> error option \<times> ResourceData \<times> request list" where
  "resourceSonarqubeWebhookUpdate d m h =
     (case httpRequestHelper (httpClient m) ''POST'' (updateURL d m) StatusNoContent
             ''resourceSonarqubeWebhookUpdate'' h of
        (Inl err, h') \<Rightarrow>
          (Some (Errorf ''Error updating Sonarqube webhook: %+v'' (Some err)), d, h')
      | (Inr resp, h') \<Rightarrow> resourceSonarqubeWebhookRead d m h')"

subsection \<open>Delete\<close>

definition deleteURL :: "ResourceData \<Rightarrow> ProviderConfiguration \<Rightarrow> net_url" where
  "deleteURL d m =
     (sonarQubeURL m)\<lparr>Path := ''api/webhooks/delete'',
                      RawQuery := Encode [(''webhook'', [d_Id d])]\<rparr>"

definition resourceSonarqubeWebhookDelete ::
  "ResourceData \<Rightarrow> ProviderConfiguration \<Rightarrow> request list
     \<Rightarrow> error option \<times> ResourceData \<times> request list" where
  "resourceSonarqubeWebhookDelete d m h =
     (case httpRequestHelper (httpClient m) ''POST'' (deleteURL d m) StatusNoContent
             ''resourceSonarqubeWebhookDelete'' h of
        (Inl err, h') \<Rightarrow>
          (Some (Errorf ''resourceSonarqubeWebhookDelete: Failed to delete webhook: %+v''
                   (Some err)), d, h')
      | (Inr resp, h') \<Rightarrow> (None, d, h'))"

subsection \<open>Import\<close>

text \<open>
  The importer returns a slice of resource data and an error: \<^verbatim>\<open>nil, err\<close> when Read
  fails (the empty list here) and the one-element slice holding \<^verbatim>\<open>d\<close> otherwise.
\<close>

definition resourceSonarqubeWebhookImport ::
  "ResourceData \<Rightarrow> ProviderConfiguration \<Rightarrow> request list
     \<Rightarrow> (ResourceData list \<times> error option) \<times> ResourceData \<times> request list" where
  "resourceSonarqubeWebhookImport d m h =
     (case resourceSonarqubeWebhookRead d m h of
        (Some err, d', h') \<Rightarrow> (([], Some err), d', h')
      | (None, d', h') \<Rightarrow> (([d'], None), d', h'))"

subsection \<open>Concrete servers and resources\<close>

text \<open>
  A scripted server answers the n-th request of the history with the n-th entry of a
  list, and refuses the connection once the list is used up.
\<close>

definition scripted :: "http_result list \<Rightarrow> httpClient_t" where
  "scripted rs h req =
     (if length h < length rs then rs ! length h else Failed ''connection refused'')"

text \<open>
  Bodies as the decoder sees them: a list document (as a create response it has no
  \<^verbatim>\<open>webhook\<close> member, which leaves the struct zero), a create document (as a list it has
  no \<^verbatim>\<open>webhooks\<close> member), and a body that is not JSON.
\<close>

definition json_list :: "Webhook list \<Rightarrow> body" where
  "json_list ws =
     Body (Inr \<lparr>Webhook = \<lparr>Key = [], Name = [], URL = [], Secret = []\<rparr>\<rparr>)
          (Inr \<lparr>Webhooks = ws\<rparr>)"

definition json_created :: "Webhook \<Rightarrow> body" where
  "json_created w = Body (Inr \<lparr>Webhook = w\<rparr>) (Inr \<lparr>Webhooks = []\<rparr>)"

definition not_json :: "string \<Rightarrow> body" where
  "not_json e = Body (Inl (DecodeError e)) (Inl (DecodeError e))"

definition sonar :: "http_result list \<Rightarrow> ProviderConfiguration" where
  "sonar rs = \<lparr>httpClient = scripted rs,
              sonarQubeURL = \<lparr>Base = ''https://sonar.example'', Path = [], RawQuery = []\<rparr>\<rparr>"

definition hook1 :: ResourceData where
  "hook1 = \<lparr>ident = ''AV1'',
            attrs = [''name'' \<mapsto> ''build-notify'', ''url'' \<mapsto> ''https://ci.example/hook'']\<rparr>"

definition hook_new :: ResourceData where
  "hook_new = \<lparr>ident = [],
               attrs = [''name'' \<mapsto> ''build-notify'', ''url'' \<mapsto> ''https://ci.example/hook'',
                        ''project'' \<mapsto> ''my project'']\<rparr>"

definition served1 :: Webhook where
  "served1 = \<lparr>Key = ''AV1'', Name = ''renamed'', URL = ''https://ci.example/hook2'', Secret = []\<rparr>"

definition served2 :: Webhook where
  "served2 = \<lparr>Key = ''AV2'', Name = ''other'', URL = ''https://other.example'', Secret = ''s3''\<rparr>"

definition created9 :: Webhook where
  "created9 = \<lparr>Key = ''AV9'', Name = ''build-notify'', URL = ''https://ci.example/hook'', Secret = []\<rparr>"

definition listed9 :: Webhook where
  "listed9 = \<lparr>Key = ''AV9'', Name = ''Build Notify'', URL = ''https://ci.example/hook/'', Secret = []\<rparr>"

definition keyless :: Webhook where
  "keyless = \<lparr>Key = [], Name = ''build-notify'', URL = ''https://ci.example/hook'', Secret = []\<rparr>"

section \<open>Properties\<close>

subsection \<open>The scan, the request history and the URLs\<close>

lemma scan_webhooks_absent:
  "\<forall>v \<in> set ws. Key v \<noteq> d_Id d \<Longrightarrow> scan_webhooks d ws = (d, False)"
  by (induction ws) auto

lemma scan_webhooks_found:
  "find (\<lambda>v. Key v = d_Id d) ws = Some v \<Longrightarrow>
   scan_webhooks d ws =
     (d\<lparr>ident := Key v,
        attrs := (attrs d)(''key'' \<mapsto> Key v, ''name'' \<mapsto> Name v, ''url'' \<mapsto> URL v,
                           ''secret'' \<mapsto> Secret v)\<rparr>, True)"
  by (induction ws) (auto simp: d_SetId_def d_Set_def)

lemma Read_absent:
  assumes "httpRequestHelper (httpClient m) ''GET'' (listURL d m) StatusOK
             ''resourceSonarqubeWebhookRead'' h = (Inr resp, h')"
    and "Decode_GetWebhooks resp = Inr gw"
    and "\<forall>v \<in> set (Webhooks gw). Key v \<noteq> d_Id d"
  shows "resourceSonarqubeWebhookRead d m h = (None, d_SetId d [], h')"
  using assms by (simp add: resourceSonarqubeWebhookRead_def scan_webhooks_absent)

lemma Read_found:
  assumes "httpRequestHelper (httpClient m) ''GET'' (listURL d m) StatusOK
             ''resourceSonarqubeWebhookRead'' h = (Inr resp, h')"
    and "Decode_GetWebhooks resp = Inr gw"
    and "find (\<lambda>v. Key v = d_Id d) (Webhooks gw) = Some v"
  shows "resourceSonarqubeWebhookRead d m h =
           (None,
            d\<lparr>ident := Key v,
              attrs := (attrs d)(''key'' \<mapsto> Key v, ''name'' \<mapsto> Name v, ''url'' \<mapsto> URL v,
                                 ''secret'' \<mapsto> Secret v)\<rparr>, h')"
  using assms by (simp add: resourceSonarqubeWebhookRead_def scan_webhooks_found)

lemma Read_error_unchanged:
  "fst (resourceSonarqubeWebhookRead d m h) \<noteq> None \<Longrightarrow>
   fst (snd (resourceSonarqubeWebhookRead d m h)) = d"
  by (auto simp: resourceSonarqubeWebhookRead_def split: prod.splits sum.splits if_splits)

lemma httpRequestHelper_history:
  "snd (httpRequestHelper client method u expected caller h) =
     h @ [\<lparr>Method = method, Target = u\<rparr>]"
  by (simp add: httpRequestHelper_def Let_def split: http_result.splits)

lemma Read_history:
  "snd (snd (resourceSonarqubeWebhookRead d m h)) =
     h @ [\<lparr>Method = ''GET'', Target = listURL d m\<rparr>]"
  using httpRequestHelper_history
          [of "httpClient m" "''GET''" "listURL d m" StatusOK "''resourceSonarqubeWebhookRead''" h]
  by (auto simp: resourceSonarqubeWebhookRead_def split: prod.splits sum.splits)

lemma listURL_eq:
  "listURL d m =
     (sonarQubeURL m)\<lparr>Path := ''api/webhooks/list'',
        RawQuery := (if d_Get d ''project'' \<noteq> []
                     then ''project='' @ QueryEscape (d_Get d ''project'')
                     else RawQuery (sonarQubeURL m))\<rparr>"
  by (simp add: listURL_def d_GetOk_def Encode_def QueryEscape_def escape_byte_def
        shouldEscape_def)

lemma listURL_SetId: "listURL (d_SetId d k) m = listURL d m"
  by (simp add: listURL_def d_SetId_def d_GetOk_def d_Get_def)

lemma Add_fresh: "key \<notin> fst ` set v \<Longrightarrow> Add v key val = v @ [(key, [val])]"
  by (induction v) (auto simp: Add_def map_of_eq_None_iff [THEN iffD2])

lemma updateURL_eq:
  "updateURL d m =
     (sonarQubeURL m)\<lparr>Path := ''api/webhooks/update'',
        RawQuery := Encode ([(''webhook'', [d_Id d]), (''name'', [d_Get d ''name'']),
                             (''url'', [d_Get d ''url''])]
                            @ (if snd (d_GetOk d ''project'')
                               then [(''project'', [fst (d_GetOk d ''project'')])] else [])
                            @ (if snd (d_GetOk d ''secret'')
                               then [(''secret'', [fst (d_GetOk d ''secret'')])] else []))\<rparr>"
  by (simp add: updateURL_def d_GetOk_def Add_fresh)

text \<open>The equations that evaluate the model on the concrete servers and resources.\<close>

lemmas eval_defs = sonar_def scripted_def hook1_def hook_new_def served1_def served2_def
  created9_def listed9_def keyless_def json_list_def json_created_def not_json_def
  httpRequestHelper_def listURL_def createURL_def updateURL_def deleteURL_def
  d_GetOk_def d_Get_def d_Id_def d_SetId_def d_Set_def

lemmas encode_defs = Encode_def QueryEscape_def escape_byte_def shouldEscape_def
  upperhex_def Add_def

subsection \<open>Read of a webhook that the server does not list\<close>

text \<open>
  C1. Whenever the list request of Read is answered and the body decodes, and no entry of
  the decoded list has the resource's current identifier as its key, Read returns no
  error, and the resource data it leaves is the one it was given with the identifier
  set to the empty string: the resource is marked absent. The attributes are untouched.
\<close>

theorem C1_read_absent_clears_identifier:
  assumes "httpRequestHelper (httpClient m) ''GET'' (listURL d m) StatusOK
             ''resourceSonarqubeWebhookRead'' h = (Inr resp, h')"
    and "Decode_GetWebhooks resp = Inr gw"
    and "\<forall>v \<in> set (Webhooks gw). Key v \<noteq> d_Id d"
  shows "resourceSonarqubeWebhookRead d m h = (None, d\<lparr>ident := []\<rparr>, h')
         \<and> d_Id (fst (snd (resourceSonarqubeWebhookRead d m h))) = []"
  using Read_absent [OF assms] by (simp add: d_SetId_def d_Id_def)

text \<open>
  The resource \<open>AV1\<close> is read from a server that lists only \<open>AV2\<close>.
\<close>

theorem C1_read_absent_clears_identifier_witness:
  "httpRequestHelper (httpClient (sonar [Response 200 (json_list [served2])])) ''GET''
       (listURL hook1 (sonar [Response 200 (json_list [served2])])) StatusOK
       ''resourceSonarqubeWebhookRead'' []
     = (Inr (json_list [served2]),
        [\<lparr>Method = ''GET'',
          Target = \<lparr>Base = ''https://sonar.example'', Path = ''api/webhooks/list'',
                    RawQuery = []\<rparr>\<rparr>])
   \<and> Decode_GetWebhooks (json_list [served2]) = Inr \<lparr>Webhooks = [served2]\<rparr>
   \<and> Webhooks \<lparr>Webhooks = [served2]\<rparr> = [served2]
   \<and> Key served2 \<noteq> d_Id hook1
   \<and> resourceSonarqubeWebhookRead hook1 (sonar [Response 200 (json_list [served2])]) []
        = (None,
           \<lparr>ident = [],
            attrs = [''name'' \<mapsto> ''build-notify'', ''url'' \<mapsto> ''https://ci.example/hook'']\<rparr>,
           [\<lparr>Method = ''GET'',
             Target = \<lparr>Base = ''https://sonar.example'', Path = ''api/webhooks/list'',
                       RawQuery = []\<rparr>\<rparr>])"
proof -
  let ?m = "sonar [Response 200 (json_list [served2])]"
  let ?h = "[\<lparr>Method = ''GET'',
              Target = \<lparr>Base = ''https://sonar.example'', Path = ''api/webhooks/list'',
                        RawQuery = []\<rparr>\<rparr>]"
  have a: "httpRequestHelper (httpClient ?m) ''GET'' (listURL hook1 ?m) StatusOK
             ''resourceSonarqubeWebhookRead'' [] = (Inr (json_list [served2]), ?h)"
    by (simp add: eval_defs)
  have b: "Decode_GetWebhooks (json_list [served2]) = Inr \<lparr>Webhooks = [served2]\<rparr>"
    by (simp add: json_list_def)
  have c: "\<forall>v \<in> set (Webhooks \<lparr>Webhooks = [served2]\<rparr>). Key v \<noteq> d_Id hook1"
    by (simp add: served2_def hook1_def d_Id_def)
  have c': "Key served2 \<noteq> d_Id hook1"
    by (simp add: served2_def hook1_def d_Id_def)
  from C1_read_absent_clears_identifier [OF a b c] a b c' show ?thesis
    by (simp add: hook1_def)
qed

subsection \<open>Create\<close>

text \<open>
  C2. Whenever the create request is answered and the body decodes into a response whose
  webhook key is the empty string, Create returns the error
  "resourceSonarqubeWebhookCreate: Create response did not contain the webhook's key"
  and leaves the resource data as it was given, so the identifier is not set; no Read
  follows (the history is the one the create request left).
\<close>

theorem C2_create_empty_key_is_error:
  assumes "httpRequestHelper (httpClient m) ''POST'' (createURL d m) StatusOK
             ''resourceSonarqubeWebhookCreate'' h = (Inr resp, h')"
    and "Decode_CreateWebhookResponse resp = Inr cr"
    and "Key (Webhook cr) = []"
  shows "resourceSonarqubeWebhookCreate d m h =
           (Some (Errorf ''resourceSonarqubeWebhookCreate: Create response did not contain the webhook's key''
                    None), d, h')"
  using assms by (simp add: resourceSonarqubeWebhookCreate_def)

text \<open>
  The server answers the create request with status 200 and a webhook without a key.
\<close>

theorem C2_create_empty_key_is_error_witness:
  "httpRequestHelper (httpClient (sonar [Response 200 (json_created keyless)])) ''POST''
       (createURL hook_new (sonar [Response 200 (json_created keyless)])) StatusOK
       ''resourceSonarqubeWebhookCreate'' []
     = (Inr (json_created keyless),
        [\<lparr>Method = ''POST'',
          Target = \<lparr>Base = ''https://sonar.example'', Path = ''api/webhooks/create'',
                    RawQuery = ''name=build-notify&project=my+project&url=https%3A%2F%2Fci.example%2Fhook''\<rparr>\<rparr>])
   \<and> Decode_CreateWebhookResponse (json_created keyless) = Inr \<lparr>Webhook = keyless\<rparr>
   \<and> Key (Webhook \<lparr>Webhook = keyless\<rparr>) = []
   \<and> resourceSonarqubeWebhookCreate hook_new (sonar [Response 200 (json_created keyless)]) []
        = (Some (Errorf ''resourceSonarqubeWebhookCreate: Create response did not contain the webhook's key''
                   None),
           hook_new,
           [\<lparr>Method = ''POST'',
             Target = \<lparr>Base = ''https://sonar.example'', Path = ''api/webhooks/create'',
                       RawQuery = ''name=build-notify&project=my+project&url=https%3A%2F%2Fci.example%2Fhook''\<rparr>\<rparr>])"
proof -
  let ?m = "sonar [Response 200 (json_created keyless)]"
  let ?h = "[\<lparr>Method = ''POST'',
              Target = \<lparr>Base = ''https://sonar.example'', Path = ''api/webhooks/create'',
                        RawQuery = ''name=build-notify&project=my+project&url=https%3A%2F%2Fci.example%2Fhook''\<rparr>\<rparr>]"
  have a: "httpRequestHelper (httpClient ?m) ''POST'' (createURL hook_new ?m) StatusOK
             ''resourceSonarqubeWebhookCreate'' [] = (Inr (json_created keyless), ?h)"
    by (simp add: eval_defs encode_defs)
  have b: "Decode_CreateWebhookResponse (json_created keyless) = Inr \<lparr>Webhook = keyless\<rparr>"
    by (simp add: json_created_def)
  have c: "Key (Webhook \<lparr>Webhook = keyless\<rparr>) = []"
    by (simp add: keyless_def)
  from C2_create_empty_key_is_error [OF a b c] a b c show ?thesis
    by simp
qed

text \<open>
  C3. Whenever the create request is answered, the body decodes and the returned key is
  not empty, Create is the Read of the resource data with the identifier set to the
  returned key, started from the history the create request left: nothing else of the
  create response is used. Hence, when that Read's list request is answered with a list
  holding an entry with the returned key, Create ends without error and the identifier
  and the attributes key, name, url and secret are those of the first such entry.
\<close>

theorem C3_create_sets_id_then_reads:
  assumes "httpRequestHelper (httpClient m) ''POST'' (createURL d m) StatusOK
             ''resourceSonarqubeWebhookCreate'' h = (Inr resp, h')"
    and "Decode_CreateWebhookResponse resp = Inr cr"
    and "Key (Webhook cr) \<noteq> []"
  shows "resourceSonarqubeWebhookCreate d m h =
           resourceSonarqubeWebhookRead (d_SetId d (Key (Webhook cr))) m h'
         \<and> (\<forall>resp2 h2 gw v.
               httpRequestHelper (httpClient m) ''GET'' (listURL d m) StatusOK
                 ''resourceSonarqubeWebhookRead'' h' = (Inr resp2, h2)
               \<longrightarrow> Decode_GetWebhooks resp2 = Inr gw
               \<longrightarrow> find (\<lambda>v. Key v = Key (Webhook cr)) (Webhooks gw) = Some v
               \<longrightarrow> resourceSonarqubeWebhookCreate d m h =
                     (None,
                      d\<lparr>ident := Key v,
                        attrs := (attrs d)(''key'' \<mapsto> Key v, ''name'' \<mapsto> Name v,
                                           ''url'' \<mapsto> URL v, ''secret'' \<mapsto> Secret v)\<rparr>, h2))"
proof -
  let ?d1 = "d_SetId d (Key (Webhook cr))"
  have eq: "resourceSonarqubeWebhookCreate d m h = resourceSonarqubeWebhookRead ?d1 m h'"
    using assms by (simp add: resourceSonarqubeWebhookCreate_def)
  have "resourceSonarqubeWebhookRead ?d1 m h' =
          (None,
           d\<lparr>ident := Key v,
             attrs := (attrs d)(''key'' \<mapsto> Key v, ''name'' \<mapsto> Name v,
                                ''url'' \<mapsto> URL v, ''secret'' \<mapsto> Secret v)\<rparr>, h2)"
    if a: "httpRequestHelper (httpClient m) ''GET'' (listURL d m) StatusOK
             ''resourceSonarqubeWebhookRead'' h' = (Inr resp2, h2)"
      and b: "Decode_GetWebhooks resp2 = Inr gw"
      and c: "find (\<lambda>v. Key v = Key (Webhook cr)) (Webhooks gw) = Some v"
    for resp2 h2 gw v
  proof -
    have a': "httpRequestHelper (httpClient m) ''GET'' (listURL ?d1 m) StatusOK
                ''resourceSonarqubeWebhookRead'' h' = (Inr resp2, h2)"
      using a by (simp add: listURL_SetId)
    have c': "find (\<lambda>v. Key v = d_Id ?d1) (Webhooks gw) = Some v"
      using c by (simp add: d_Id_def d_SetId_def)
    show ?thesis
      using Read_found [OF a' b c'] by (simp add: d_SetId_def)
  qed
  with eq show ?thesis by simp
qed

text \<open>
  The server creates the webhook under the key \<open>AV9\<close> and then lists it, after another
  one, with the name and URL as it stores them; these, not the submitted ones, end up in
  the resource data.
\<close>

theorem C3_create_sets_id_then_reads_witness:
  "httpRequestHelper
       (httpClient (sonar [Response 200 (json_created created9),
                           Response 200 (json_list [served2, listed9])])) ''POST''
       (createURL hook_new (sonar [Response 200 (json_created created9),
                                   Response 200 (json_list [served2, listed9])])) StatusOK
       ''resourceSonarqubeWebhookCreate'' []
     = (Inr (json_created created9),
        [\<lparr>Method = ''POST'',
          Target = \<lparr>Base = ''https://sonar.example'', Path = ''api/webhooks/create'',
                    RawQuery = ''name=build-notify&project=my+project&url=https%3A%2F%2Fci.example%2Fhook''\<rparr>\<rparr>])
   \<and> Decode_CreateWebhookResponse (json_created created9) = Inr \<lparr>Webhook = created9\<rparr>
   \<and> Key (Webhook \<lparr>Webhook = created9\<rparr>) \<noteq> []
   \<and> Decode_GetWebhooks (json_list [served2, listed9]) = Inr \<lparr>Webhooks = [served2, listed9]\<rparr>
   \<and> find (\<lambda>v. Key v = Key (Webhook \<lparr>Webhook = created9\<rparr>))
        (Webhooks \<lparr>Webhooks = [served2, listed9]\<rparr>) = Some listed9
   \<and> resourceSonarqubeWebhookCreate hook_new
        (sonar [Response 200 (json_created created9),
                Response 200 (json_list [served2, listed9])]) []
        = (None,
           \<lparr>ident = ''AV9'',
            attrs = [''name'' \<mapsto> ''Build Notify'', ''url'' \<mapsto> ''https://ci.example/hook/'',
                     ''project'' \<mapsto> ''my project'', ''key'' \<mapsto> ''AV9'', ''secret'' \<mapsto> []]\<rparr>,
           [\<lparr>Method = ''POST'',
             Target = \<lparr>Base = ''https://sonar.example'', Path = ''api/webhooks/create'',
                       RawQuery = ''name=build-notify&project=my+project&url=https%3A%2F%2Fci.example%2Fhook''\<rparr>\<rparr>,
            \<lparr>Method = ''GET'',
             Target = \<lparr>Base = ''https://sonar.example'', Path = ''api/webhooks/list'',
                       RawQuery = ''project=my+project''\<rparr>\<rparr>])"
proof -
  let ?m = "sonar [Response 200 (json_created created9),
                   Response 200 (json_list [served2, listed9])]"
  let ?post = "\<lparr>Method = ''POST'',
                Target = \<lparr>Base = ''https://sonar.example'', Path = ''api/webhooks/create'',
                          RawQuery = ''name=build-notify&project=my+project&url=https%3A%2F%2Fci.example%2Fhook''\<rparr>\<rparr>"
  let ?get = "\<lparr>Method = ''GET'',
               Target = \<lparr>Base = ''https://sonar.example'', Path = ''api/webhooks/list'',
                         RawQuery = ''project=my+project''\<rparr>\<rparr>"
  have a: "httpRequestHelper (httpClient ?m) ''POST'' (createURL hook_new ?m) StatusOK
             ''resourceSonarqubeWebhookCreate'' [] = (Inr (json_created created9), [?post])"
    by (simp add: eval_defs encode_defs)
  have b: "Decode_CreateWebhookResponse (json_created created9) = Inr \<lparr>Webhook = created9\<rparr>"
    by (simp add: json_created_def)
  have c: "Key (Webhook \<lparr>Webhook = created9\<rparr>) \<noteq> []"
    by (simp add: created9_def)
  have a2: "httpRequestHelper (httpClient ?m) ''GET'' (listURL hook_new ?m) StatusOK
              ''resourceSonarqubeWebhookRead'' [?post]
            = (Inr (json_list [served2, listed9]), [?post, ?get])"
    by (simp add: eval_defs encode_defs)
  have b2: "Decode_GetWebhooks (json_list [served2, listed9])
            = Inr \<lparr>Webhooks = [served2, listed9]\<rparr>"
    by (simp add: json_list_def)
  have c2: "find (\<lambda>v. Key v = Key (Webhook \<lparr>Webhook = created9\<rparr>))
              (Webhooks \<lparr>Webhooks = [served2, listed9]\<rparr>) = Some listed9"
    by (simp add: created9_def served2_def listed9_def)
  have "resourceSonarqubeWebhookCreate hook_new ?m [] =
          (None,
           hook_new\<lparr>ident := Key listed9,
             attrs := (attrs hook_new)(''key'' \<mapsto> Key listed9, ''name'' \<mapsto> Name listed9,
                                       ''url'' \<mapsto> URL listed9, ''secret'' \<mapsto> Secret listed9)\<rparr>,
           [?post, ?get])"
    using C3_create_sets_id_then_reads [OF a b c, THEN conjunct2, rule_format, OF a2 b2 c2] .
  then have "resourceSonarqubeWebhookCreate hook_new ?m [] =
          (None,
           \<lparr>ident = ''AV9'',
            attrs = [''name'' \<mapsto> ''Build Notify'', ''url'' \<mapsto> ''https://ci.example/hook/'',
                     ''project'' \<mapsto> ''my project'', ''key'' \<mapsto> ''AV9'', ''secret'' \<mapsto> []]\<rparr>,
           [?post, ?get])"
    by (simp add: hook_new_def listed9_def fun_upd_twist)
  with a b c b2 c2 show ?thesis by simp
qed


subsection \<open>Update\<close>

text \<open>
  C4 as stated, that a successful update request leaves the identifier set, does not hold:
  Update ends with a Read, and Read clears the identifier of a webhook the server does
  not list. Here the update of \<open>AV1\<close> is answered with status 204 and the list
  that follows holds only \<open>AV2\<close>: Update returns no error and the identifier, set
  before, is empty afterwards.
\<close>

theorem C4_update_keeps_identifier_counterexample:
  "httpClient (sonar [Response 204 (not_json ''EOF''), Response 200 (json_list [served2])]) []
       \<lparr>Method = ''POST'',
        Target = updateURL hook1
                   (sonar [Response 204 (not_json ''EOF''), Response 200 (json_list [served2])])\<rparr>
     = Response StatusNoContent (not_json ''EOF'')
   \<and> d_Id hook1 = ''AV1''
   \<and> fst (resourceSonarqubeWebhookUpdate hook1
             (sonar [Response 204 (not_json ''EOF''), Response 200 (json_list [served2])]) []) = None
   \<and> d_Id (fst (snd (resourceSonarqubeWebhookUpdate hook1
             (sonar [Response 204 (not_json ''EOF''), Response 200 (json_list [served2])]) []))) = []"
  by (simp add: resourceSonarqubeWebhookUpdate_def resourceSonarqubeWebhookRead_def eval_defs)

text \<open>
  C4, as amended. If the update request is not answered with status 204 (another status,
  or a transport failure), Update returns an error that wraps the helper's, and the
  resource data is the one it was given. If it is answered with status 204, Update is
  the Read of the unchanged resource data after that request; so when that Read returns
  an error the resource data is unchanged, when its list holds an entry with the current
  identifier Update returns no error and the identifier is the same as before, and when
  its list holds no such entry Update returns no error and the identifier is cleared.
\<close>

theorem C4_update_error_or_read:
  "((\<forall>b. httpClient m h \<lparr>Method = ''POST'', Target = updateURL d m\<rparr> \<noteq> Response StatusNoContent b)
      \<longrightarrow> (\<exists>err. resourceSonarqubeWebhookUpdate d m h =
                   (Some (Errorf ''Error updating Sonarqube webhook: %+v'' (Some err)), d,
                    h @ [\<lparr>Method = ''POST'', Target = updateURL d m\<rparr>])))
   \<and> (httpClient m h \<lparr>Method = ''POST'', Target = updateURL d m\<rparr> = Response StatusNoContent b
      \<longrightarrow> resourceSonarqubeWebhookUpdate d m h =
            resourceSonarqubeWebhookRead d m (h @ [\<lparr>Method = ''POST'', Target = updateURL d m\<rparr>])
          \<and> (fst (resourceSonarqubeWebhookUpdate d m h) \<noteq> None
               \<longrightarrow> fst (snd (resourceSonarqubeWebhookUpdate d m h)) = d)
          \<and> (httpRequestHelper (httpClient m) ''GET'' (listURL d m) StatusOK
                ''resourceSonarqubeWebhookRead''
                (h @ [\<lparr>Method = ''POST'', Target = updateURL d m\<rparr>]) = (Inr resp, h')
              \<longrightarrow> Decode_GetWebhooks resp = Inr gw
              \<longrightarrow> (find (\<lambda>v. Key v = d_Id d) (Webhooks gw) = Some v
                    \<longrightarrow> fst (resourceSonarqubeWebhookUpdate d m h) = None
                        \<and> d_Id (fst (snd (resourceSonarqubeWebhookUpdate d m h))) = d_Id d)
                  \<and> ((\<forall>v \<in> set (Webhooks gw). Key v \<noteq> d_Id d)
                    \<longrightarrow> resourceSonarqubeWebhookUpdate d m h = (None, d\<lparr>ident := []\<rparr>, h'))))"
proof -
  let ?post = "\<lparr>Method = ''POST'', Target = updateURL d m\<rparr>"
  have fail: "\<exists>err. resourceSonarqubeWebhookUpdate d m h =
                (Some (Errorf ''Error updating Sonarqube webhook: %+v'' (Some err)), d, h @ [?post])"
    if "\<forall>b. httpClient m h ?post \<noteq> Response StatusNoContent b"
    using that
    by (cases "httpClient m h ?post")
       (auto simp: resourceSonarqubeWebhookUpdate_def httpRequestHelper_def)
  have ok: "resourceSonarqubeWebhookUpdate d m h = resourceSonarqubeWebhookRead d m (h @ [?post])"
    if "httpClient m h ?post = Response StatusNoContent b"
    using that by (simp add: resourceSonarqubeWebhookUpdate_def httpRequestHelper_def)
  have found: "fst (resourceSonarqubeWebhookRead d m (h @ [?post])) = None
               \<and> d_Id (fst (snd (resourceSonarqubeWebhookRead d m (h @ [?post])))) = d_Id d"
    if "httpRequestHelper (httpClient m) ''GET'' (listURL d m) StatusOK
          ''resourceSonarqubeWebhookRead'' (h @ [?post]) = (Inr resp, h')"
      and "Decode_GetWebhooks resp = Inr gw"
      and "find (\<lambda>v. Key v = d_Id d) (Webhooks gw) = Some v"
  proof -
    from that(3) have "Key v = d_Id d"
      by (auto simp: find_Some_iff)
    with Read_found [OF that] show ?thesis
      by (simp add: d_Id_def)
  qed
  have absent: "resourceSonarqubeWebhookRead d m (h @ [?post]) = (None, d\<lparr>ident := []\<rparr>, h')"
    if "httpRequestHelper (httpClient m) ''GET'' (listURL d m) StatusOK
          ''resourceSonarqubeWebhookRead'' (h @ [?post]) = (Inr resp, h')"
      and "Decode_GetWebhooks resp = Inr gw"
      and "\<forall>v \<in> set (Webhooks gw). Key v \<noteq> d_Id d"
    using Read_absent [OF that] by (simp add: d_SetId_def)
  show ?thesis
    using fail ok found absent Read_error_unchanged [of d m "h @ [?post]"]
    by (intro conjI impI) simp_all
qed

text \<open>
  Four servers for the update of \<open>AV1\<close>: one answers the update request with status 500,
  one with 204 and then lists \<open>AV2\<close> and \<open>AV1\<close>, one with 204 and then lists only
  \<open>AV2\<close>, one with 204 and then refuses the list request.
\<close>

theorem C4_update_error_or_read_witness:
  "(\<forall>b. httpClient (sonar [Response 500 (not_json ''EOF'')]) []
           \<lparr>Method = ''POST'', Target = updateURL hook1 (sonar [Response 500 (not_json ''EOF'')])\<rparr>
         \<noteq> Response StatusNoContent b)
   \<and> (\<exists>err. resourceSonarqubeWebhookUpdate hook1 (sonar [Response 500 (not_json ''EOF'')]) [] =
         (Some (Errorf ''Error updating Sonarqube webhook: %+v'' (Some err)), hook1,
          [\<lparr>Method = ''POST'',
            Target = updateURL hook1 (sonar [Response 500 (not_json ''EOF'')])\<rparr>]))
   \<and> httpClient (sonar [Response 204 (not_json ''EOF''), Response 200 (json_list [served2, served1])]) []
        \<lparr>Method = ''POST'',
         Target = updateURL hook1
                    (sonar [Response 204 (not_json ''EOF''),
                            Response 200 (json_list [served2, served1])])\<rparr>
       = Response StatusNoContent (not_json ''EOF'')
   \<and> find (\<lambda>v. Key v = d_Id hook1) [served2, served1] = Some served1
   \<and> fst (resourceSonarqubeWebhookUpdate hook1
            (sonar [Response 204 (not_json ''EOF''),
                    Response 200 (json_list [served2, served1])]) []) = None
   \<and> d_Id (fst (snd (resourceSonarqubeWebhookUpdate hook1
            (sonar [Response 204 (not_json ''EOF''),
                    Response 200 (json_list [served2, served1])]) []))) = ''AV1''
   \<and> Key served2 \<noteq> d_Id hook1
   \<and> resourceSonarqubeWebhookUpdate hook1
        (sonar [Response 204 (not_json ''EOF''), Response 200 (json_list [served2])]) []
       = (None, hook1\<lparr>ident := []\<rparr>,
          [\<lparr>Method = ''POST'',
            Target = \<lparr>Base = ''https://sonar.example'', Path = ''api/webhooks/update'',
                      RawQuery = ''name=build-notify&url=https%3A%2F%2Fci.example%2Fhook&webhook=AV1''\<rparr>\<rparr>,
           \<lparr>Method = ''GET'',
            Target = \<lparr>Base = ''https://sonar.example'', Path = ''api/webhooks/list'',
                      RawQuery = []\<rparr>\<rparr>])
   \<and> fst (resourceSonarqubeWebhookUpdate hook1 (sonar [Response 204 (not_json ''EOF'')]) [])
       = Some (TransportError ''resourceSonarqubeWebhookRead'' ''connection refused'')
   \<and> fst (snd (resourceSonarqubeWebhookUpdate hook1 (sonar [Response 204 (not_json ''EOF'')]) []))
       = hook1"
proof -
  let ?m500 = "sonar [Response 500 (not_json ''EOF'')]"
  let ?mfound = "sonar [Response 204 (not_json ''EOF''), Response 200 (json_list [served2, served1])]"
  let ?mabsent = "sonar [Response 204 (not_json ''EOF''), Response 200 (json_list [served2])]"
  let ?mrefused = "sonar [Response 204 (not_json ''EOF'')]"
  let ?post = "\<lparr>Method = ''POST'',
                Target = \<lparr>Base = ''https://sonar.example'', Path = ''api/webhooks/update'',
                          RawQuery = ''name=build-notify&url=https%3A%2F%2Fci.example%2Fhook&webhook=AV1''\<rparr>\<rparr>"
  let ?get = "\<lparr>Method = ''GET'',
               Target = \<lparr>Base = ''https://sonar.example'', Path = ''api/webhooks/list'',
                         RawQuery = []\<rparr>\<rparr>"
  have url: "updateURL hook1 (sonar rs) = Target ?post" for rs
    by (simp add: eval_defs encode_defs)
  have lst: "listURL hook1 (sonar rs) = Target ?get" for rs
    by (simp add: eval_defs)
  have f1: "\<forall>b. httpClient ?m500 [] \<lparr>Method = ''POST'', Target = updateURL hook1 ?m500\<rparr>
              \<noteq> Response StatusNoContent b"
    by (simp add: sonar_def scripted_def)
  note f2 = C4_update_error_or_read [of ?m500 "[]" hook1, THEN conjunct1, THEN mp, OF f1]
  have s1: "httpClient ?mfound [] \<lparr>Method = ''POST'', Target = updateURL hook1 ?mfound\<rparr>
              = Response StatusNoContent (not_json ''EOF'')"
    by (simp add: sonar_def scripted_def)
  have s2: "httpRequestHelper (httpClient ?mfound) ''GET'' (listURL hook1 ?mfound) StatusOK
              ''resourceSonarqubeWebhookRead''
              ([] @ [\<lparr>Method = ''POST'', Target = updateURL hook1 ?mfound\<rparr>])
            = (Inr (json_list [served2, served1]), [?post, ?get])"
    unfolding url lst by (simp add: httpRequestHelper_def sonar_def scripted_def)
  have s3: "Decode_GetWebhooks (json_list [served2, served1])
            = Inr \<lparr>Webhooks = [served2, served1]\<rparr>"
    by (simp add: json_list_def)
  have s4: "find (\<lambda>v. Key v = d_Id hook1) (Webhooks \<lparr>Webhooks = [served2, served1]\<rparr>)
            = Some served1"
    by (simp add: served1_def served2_def hook1_def d_Id_def)
  note s5 = C4_update_error_or_read
              [of ?mfound "[]" hook1 "not_json ''EOF''" "json_list [served2, served1]"
                  "[?post, ?get]" "\<lparr>Webhooks = [served2, served1]\<rparr>" served1,
               THEN conjunct2, THEN mp, OF s1, THEN conjunct2, THEN conjunct2,
               THEN mp, OF s2, THEN mp, OF s3, THEN conjunct1, THEN mp, OF s4]
  have a1: "httpClient ?mabsent [] \<lparr>Method = ''POST'', Target = updateURL hook1 ?mabsent\<rparr>
              = Response StatusNoContent (not_json ''EOF'')"
    by (simp add: sonar_def scripted_def)
  have a2: "httpRequestHelper (httpClient ?mabsent) ''GET'' (listURL hook1 ?mabsent) StatusOK
              ''resourceSonarqubeWebhookRead''
              ([] @ [\<lparr>Method = ''POST'', Target = updateURL hook1 ?mabsent\<rparr>])
            = (Inr (json_list [served2]), [?post, ?get])"
    unfolding url lst by (simp add: httpRequestHelper_def sonar_def scripted_def)
  have a3: "Decode_GetWebhooks (json_list [served2]) = Inr \<lparr>Webhooks = [served2]\<rparr>"
    by (simp add: json_list_def)
  have a4: "\<forall>v \<in> set (Webhooks \<lparr>Webhooks = [served2]\<rparr>). Key v \<noteq> d_Id hook1"
    by (simp add: served2_def hook1_def d_Id_def)
  note a5 = C4_update_error_or_read
              [of ?mabsent "[]" hook1 "not_json ''EOF''" "json_list [served2]"
                  "[?post, ?get]" "\<lparr>Webhooks = [served2]\<rparr>",
               THEN conjunct2, THEN mp, OF a1, THEN conjunct2, THEN conjunct2,
               THEN mp, OF a2, THEN mp, OF a3, THEN conjunct2, THEN mp, OF a4]
  have r1: "httpClient ?mrefused [] \<lparr>Method = ''POST'', Target = updateURL hook1 ?mrefused\<rparr>
              = Response StatusNoContent (not_json ''EOF'')"
    by (simp add: sonar_def scripted_def)
  have r2: "fst (resourceSonarqubeWebhookUpdate hook1 ?mrefused [])
              = Some (TransportError ''resourceSonarqubeWebhookRead'' ''connection refused'')"
    by (simp add: resourceSonarqubeWebhookUpdate_def resourceSonarqubeWebhookRead_def
          httpRequestHelper_def sonar_def scripted_def)
  then have r3: "fst (resourceSonarqubeWebhookUpdate hook1 ?mrefused []) \<noteq> None"
    by simp
  note r4 = C4_update_error_or_read
              [of ?mrefused "[]" hook1 "not_json ''EOF''",
               THEN conjunct2, THEN mp, OF r1, THEN conjunct2, THEN conjunct1,
               THEN mp, OF r3]
  have k: "Key served2 \<noteq> d_Id hook1" "d_Id hook1 = ''AV1''"
    by (simp_all add: served2_def hook1_def d_Id_def)
  from f1 f2 s1 s4 s5 k a5 r2 r4 show ?thesis
    by simp
qed


subsection \<open>Delete\<close>

text \<open>
  C5. Delete asks the helper for one POST to \<open>deleteURL\<close> with 204 as the expected
  status; it returns no error when the helper returns none, and otherwise the error
  "resourceSonarqubeWebhookDelete: Failed to delete webhook: ..." that wraps the
  helper's. With the helper's check of the status: if the answer has status 204, Delete
  returns no error; if it has any other status, or the exchange fails at transport
  level, Delete returns the wrapped error. In every case the resource data (identifier
  and attributes) is the one Delete was given.
\<close>

theorem C5_delete_204_or_error:
  "resourceSonarqubeWebhookDelete d m h =
     (case httpRequestHelper (httpClient m) ''POST'' (deleteURL d m) StatusNoContent
             ''resourceSonarqubeWebhookDelete'' h of
        (Inl err, h') \<Rightarrow>
          (Some (Errorf ''resourceSonarqubeWebhookDelete: Failed to delete webhook: %+v''
                   (Some err)), d, h')
      | (Inr resp, h') \<Rightarrow> (None, d, h'))
   \<and> resourceSonarqubeWebhookDelete d m h =
     (case httpClient m h \<lparr>Method = ''POST'', Target = deleteURL d m\<rparr> of
        Response status b \<Rightarrow>
          if status = StatusNoContent
          then (None, d, h @ [\<lparr>Method = ''POST'', Target = deleteURL d m\<rparr>])
          else (Some (Errorf ''resourceSonarqubeWebhookDelete: Failed to delete webhook: %+v''
                        (Some (StatusError ''resourceSonarqubeWebhookDelete'' StatusNoContent status))),
                d, h @ [\<lparr>Method = ''POST'', Target = deleteURL d m\<rparr>])
      | Failed cause \<Rightarrow>
          (Some (Errorf ''resourceSonarqubeWebhookDelete: Failed to delete webhook: %+v''
                   (Some (TransportError ''resourceSonarqubeWebhookDelete'' cause))),
           d, h @ [\<lparr>Method = ''POST'', Target = deleteURL d m\<rparr>]))"
  by (simp add: resourceSonarqubeWebhookDelete_def httpRequestHelper_def
        split: http_result.splits)

text \<open>
  The delete of \<open>AV1\<close> answered with 204, answered with 404, and refused.
\<close>

theorem C5_delete_204_or_error_witness:
  "resourceSonarqubeWebhookDelete hook1 (sonar [Response 204 (not_json ''EOF'')]) []
     = (None, hook1,
        [\<lparr>Method = ''POST'',
          Target = \<lparr>Base = ''https://sonar.example'', Path = ''api/webhooks/delete'',
                    RawQuery = ''webhook=AV1''\<rparr>\<rparr>])
   \<and> resourceSonarqubeWebhookDelete hook1 (sonar [Response 404 (not_json ''EOF'')]) []
     = (Some (Errorf ''resourceSonarqubeWebhookDelete: Failed to delete webhook: %+v''
                (Some (StatusError ''resourceSonarqubeWebhookDelete'' 204 404))),
        hook1,
        [\<lparr>Method = ''POST'',
          Target = \<lparr>Base = ''https://sonar.example'', Path = ''api/webhooks/delete'',
                    RawQuery = ''webhook=AV1''\<rparr>\<rparr>])
   \<and> resourceSonarqubeWebhookDelete hook1 (sonar []) []
     = (Some (Errorf ''resourceSonarqubeWebhookDelete: Failed to delete webhook: %+v''
                (Some (TransportError ''resourceSonarqubeWebhookDelete'' ''connection refused''))),
        hook1,
        [\<lparr>Method = ''POST'',
          Target = \<lparr>Base = ''https://sonar.example'', Path = ''api/webhooks/delete'',
                    RawQuery = ''webhook=AV1''\<rparr>\<rparr>])"
proof -
  have url: "deleteURL hook1 (sonar rs) =
               \<lparr>Base = ''https://sonar.example'', Path = ''api/webhooks/delete'',
                RawQuery = ''webhook=AV1''\<rparr>" for rs
    by (simp add: eval_defs encode_defs)
  show ?thesis
    using C5_delete_204_or_error
            [of hook1 "sonar [Response 204 (not_json ''EOF'')]" "[]", THEN conjunct2]
          C5_delete_204_or_error
            [of hook1 "sonar [Response 404 (not_json ''EOF'')]" "[]", THEN conjunct2]
          C5_delete_204_or_error [of hook1 "sonar []" "[]", THEN conjunct2]
    unfolding url by (simp add: sonar_def scripted_def)
qed

subsection \<open>Read\<close>

text \<open>
  C6. Read sends exactly one request: a GET whose URL is the configured one with the path
  \<open>api/webhooks/list\<close> and, exactly when \<open>GetOk\<close> reports the project attribute as set,
  the query \<open>project=<escaped project>\<close> (otherwise the query of the configured URL is
  left as it is). When the request is answered and the body decodes, and the first
  entry of the list whose key equals the current identifier is \<open>v\<close>, Read returns no
  error and has set the identifier and the attributes key, name, url and secret from
  \<open>v\<close>, leaving everything else of the resource data as it was.
\<close>

theorem C6_read_request_and_overwrite:
  "listURL d m =
     (sonarQubeURL m)\<lparr>Path := ''api/webhooks/list'',
        RawQuery := (if snd (d_GetOk d ''project'')
                     then ''project='' @ QueryEscape (fst (d_GetOk d ''project''))
                     else RawQuery (sonarQubeURL m))\<rparr>
   \<and> snd (snd (resourceSonarqubeWebhookRead d m h)) =
       h @ [\<lparr>Method = ''GET'', Target = listURL d m\<rparr>]
   \<and> (httpRequestHelper (httpClient m) ''GET'' (listURL d m) StatusOK
         ''resourceSonarqubeWebhookRead'' h = (Inr resp, h')
       \<longrightarrow> Decode_GetWebhooks resp = Inr gw
       \<longrightarrow> find (\<lambda>v. Key v = d_Id d) (Webhooks gw) = Some v
       \<longrightarrow> resourceSonarqubeWebhookRead d m h =
             (None,
              d\<lparr>ident := Key v,
                attrs := (attrs d)(''key'' \<mapsto> Key v, ''name'' \<mapsto> Name v,
                                   ''url'' \<mapsto> URL v, ''secret'' \<mapsto> Secret v)\<rparr>, h'))"
proof -
  have "listURL d m =
     (sonarQubeURL m)\<lparr>Path := ''api/webhooks/list'',
        RawQuery := (if snd (d_GetOk d ''project'')
                     then ''project='' @ QueryEscape (fst (d_GetOk d ''project''))
                     else RawQuery (sonarQubeURL m))\<rparr>"
    by (simp add: listURL_eq d_GetOk_def)
  then show ?thesis
    using Read_history [of d m h] Read_found [of m d h resp h' gw v] by simp
qed

text \<open>
  The URL of the list request with and without a project, and the Read of \<open>AV1\<close> from a
  list that holds \<open>AV2\<close>, then \<open>AV1\<close> as the server stores it, then a second entry with
  the key \<open>AV1\<close>: the first match is taken.
\<close>

theorem C6_read_request_and_overwrite_witness:
  "listURL hook_new (sonar []) =
     \<lparr>Base = ''https://sonar.example'', Path = ''api/webhooks/list'',
      RawQuery = ''project=my+project''\<rparr>
   \<and> listURL hook1 (sonar []) =
     \<lparr>Base = ''https://sonar.example'', Path = ''api/webhooks/list'', RawQuery = []\<rparr>
   \<and> Decode_GetWebhooks (json_list [served2, served1, served1\<lparr>Name := ''later''\<rparr>])
       = Inr \<lparr>Webhooks = [served2, served1, served1\<lparr>Name := ''later''\<rparr>]\<rparr>
   \<and> find (\<lambda>v. Key v = d_Id hook1) [served2, served1, served1\<lparr>Name := ''later''\<rparr>]
       = Some served1
   \<and> resourceSonarqubeWebhookRead hook1
        (sonar [Response 200 (json_list [served2, served1, served1\<lparr>Name := ''later''\<rparr>])]) []
       = (None,
          \<lparr>ident = ''AV1'',
           attrs = [''name'' \<mapsto> ''renamed'', ''url'' \<mapsto> ''https://ci.example/hook2'',
                    ''key'' \<mapsto> ''AV1'', ''secret'' \<mapsto> []]\<rparr>,
          [\<lparr>Method = ''GET'',
            Target = \<lparr>Base = ''https://sonar.example'', Path = ''api/webhooks/list'',
                      RawQuery = []\<rparr>\<rparr>])"
proof -
  let ?ws = "[served2, served1, served1\<lparr>Name := ''later''\<rparr>]"
  let ?m = "sonar [Response 200 (json_list ?ws)]"
  let ?get = "\<lparr>Method = ''GET'',
               Target = \<lparr>Base = ''https://sonar.example'', Path = ''api/webhooks/list'',
                         RawQuery = []\<rparr>\<rparr>"
  have u1: "listURL hook_new (sonar []) =
              \<lparr>Base = ''https://sonar.example'', Path = ''api/webhooks/list'',
               RawQuery = ''project=my+project''\<rparr>"
    using C6_read_request_and_overwrite [of hook_new "sonar []", THEN conjunct1]
    by (simp add: eval_defs encode_defs)
  have u2: "listURL hook1 (sonar rs) = Target ?get" for rs
    using C6_read_request_and_overwrite [of hook1 "sonar rs", THEN conjunct1]
    by (simp add: eval_defs)
  have a: "httpRequestHelper (httpClient ?m) ''GET'' (listURL hook1 ?m) StatusOK
             ''resourceSonarqubeWebhookRead'' [] = (Inr (json_list ?ws), [?get])"
    unfolding u2 by (simp add: httpRequestHelper_def sonar_def scripted_def)
  have b: "Decode_GetWebhooks (json_list ?ws) = Inr \<lparr>Webhooks = ?ws\<rparr>"
    by (simp add: json_list_def)
  have c: "find (\<lambda>v. Key v = d_Id hook1) (Webhooks \<lparr>Webhooks = ?ws\<rparr>) = Some served1"
    by (simp add: served1_def served2_def hook1_def d_Id_def)
  have "resourceSonarqubeWebhookRead hook1 ?m [] =
          (None,
           hook1\<lparr>ident := Key served1,
             attrs := (attrs hook1)(''key'' \<mapsto> Key served1, ''name'' \<mapsto> Name served1,
                                    ''url'' \<mapsto> URL served1, ''secret'' \<mapsto> Secret served1)\<rparr>,
           [?get])"
    using C6_read_request_and_overwrite
            [of hook1 ?m "[]" "json_list ?ws" "[?get]" "\<lparr>Webhooks = ?ws\<rparr>" served1,
             THEN conjunct2, THEN conjunct2, THEN mp, OF a, THEN mp, OF b, THEN mp, OF c] .
  then have "resourceSonarqubeWebhookRead hook1 ?m [] =
          (None,
           \<lparr>ident = ''AV1'',
            attrs = [''name'' \<mapsto> ''renamed'', ''url'' \<mapsto> ''https://ci.example/hook2'',
                     ''key'' \<mapsto> ''AV1'', ''secret'' \<mapsto> []]\<rparr>,
           [?get])"
    by (simp add: hook1_def served1_def fun_upd_twist)
  with u1 u2 [of "[]"] b c show ?thesis by simp
qed

subsection \<open>Decode failures\<close>

text \<open>
  C7. When the create request is answered and the body does not decode, Create returns
  "resourceSonarqubeWebhookCreate; Failed to decode json into struct: ..." with the
  decoder's error as its argument, and the resource data is the one it was given. When
  the list request is answered and the body does not decode, Read returns
  "resourceSonarqubeWebhookRead: Failed to decode json into struct: ..." with the
  decoder's error as its argument, and the resource data is the one it was given.
\<close>

theorem C7_decode_failure_is_fatal:
  "(httpRequestHelper (httpClient m) ''POST'' (createURL d m) StatusOK
      ''resourceSonarqubeWebhookCreate'' h = (Inr resp, h')
    \<longrightarrow> Decode_CreateWebhookResponse resp = Inl e
    \<longrightarrow> resourceSonarqubeWebhookCreate d m h =
          (Some (Errorf ''resourceSonarqubeWebhookCreate; Failed to decode json into struct: %+v''
                   (Some e)), d, h'))
   \<and> (httpRequestHelper (httpClient m) ''GET'' (listURL d m) StatusOK
        ''resourceSonarqubeWebhookRead'' h = (Inr resp, h')
      \<longrightarrow> Decode_GetWebhooks resp = Inl e
      \<longrightarrow> resourceSonarqubeWebhookRead d m h =
            (Some (Errorf ''resourceSonarqubeWebhookRead: Failed to decode json into struct: %+v''
                     (Some e)), d, h'))"
  by (simp add: resourceSonarqubeWebhookCreate_def resourceSonarqubeWebhookRead_def)

text \<open>
  A server that answers with status 200 and a body that is not JSON, first to a Create
  and then to a Read.
\<close>

theorem C7_decode_failure_is_fatal_witness:
  "Decode_CreateWebhookResponse (not_json ''invalid character'')
     = Inl (DecodeError ''invalid character'')
   \<and> resourceSonarqubeWebhookCreate hook_new
        (sonar [Response 200 (not_json ''invalid character'')]) []
     = (Some (Errorf ''resourceSonarqubeWebhookCreate; Failed to decode json into struct: %+v''
                (Some (DecodeError ''invalid character''))),
        hook_new,
        [\<lparr>Method = ''POST'',
          Target = \<lparr>Base = ''https://sonar.example'', Path = ''api/webhooks/create'',
                    RawQuery = ''name=build-notify&project=my+project&url=https%3A%2F%2Fci.example%2Fhook''\<rparr>\<rparr>])
   \<and> Decode_GetWebhooks (not_json ''invalid character'')
     = Inl (DecodeError ''invalid character'')
   \<and> resourceSonarqubeWebhookRead hook1
        (sonar [Response 200 (not_json ''invalid character'')]) []
     = (Some (Errorf ''resourceSonarqubeWebhookRead: Failed to decode json into struct: %+v''
                (Some (DecodeError ''invalid character''))),
        hook1,
        [\<lparr>Method = ''GET'',
          Target = \<lparr>Base = ''https://sonar.example'', Path = ''api/webhooks/list'',
                    RawQuery = []\<rparr>\<rparr>])"
proof -
  let ?m = "sonar [Response 200 (not_json ''invalid character'')]"
  let ?post = "\<lparr>Method = ''POST'',
                Target = \<lparr>Base = ''https://sonar.example'', Path = ''api/webhooks/create'',
                          RawQuery = ''name=build-notify&project=my+project&url=https%3A%2F%2Fci.example%2Fhook''\<rparr>\<rparr>"
  let ?get = "\<lparr>Method = ''GET'',
               Target = \<lparr>Base = ''https://sonar.example'', Path = ''api/webhooks/list'',
                         RawQuery = []\<rparr>\<rparr>"
  have a1: "httpRequestHelper (httpClient ?m) ''POST'' (createURL hook_new ?m) StatusOK
              ''resourceSonarqubeWebhookCreate'' []
            = (Inr (not_json ''invalid character''), [?post])"
    by (simp add: eval_defs encode_defs)
  have b1: "Decode_CreateWebhookResponse (not_json ''invalid character'')
            = Inl (DecodeError ''invalid character'')"
    by (simp add: not_json_def)
  have a2: "httpRequestHelper (httpClient ?m) ''GET'' (listURL hook1 ?m) StatusOK
              ''resourceSonarqubeWebhookRead'' []
            = (Inr (not_json ''invalid character''), [?get])"
    by (simp add: eval_defs)
  have b2: "Decode_GetWebhooks (not_json ''invalid character'')
            = Inl (DecodeError ''invalid character'')"
    by (simp add: not_json_def)
  note c1 = C7_decode_failure_is_fatal
              [of ?m hook_new "[]" "not_json ''invalid character''" "[?post]"
                  "DecodeError ''invalid character''",
               THEN conjunct1, THEN mp, OF a1, THEN mp, OF b1]
  note c2 = C7_decode_failure_is_fatal
              [of ?m hook1 "[]" "not_json ''invalid character''" "[?get]"
                  "DecodeError ''invalid character''",
               THEN conjunct2, THEN mp, OF a2, THEN mp, OF b2]
  from b1 c1 b2 c2 show ?thesis by simp
qed


subsection \<open>The request of Update and the Read that follows it\<close>

text \<open>
  C8. The URL of the update request is the configured one with the path
  \<open>api/webhooks/update\<close> and the encoded query made of \<open>webhook\<close> (the current
  identifier), \<open>name\<close> and \<open>url\<close>, with \<open>project\<close> and \<open>secret\<close> added exactly when
  \<open>GetOk\<close> reports them as set. Update sends it as a POST with 204 as the expected
  status: on status 204 it goes on as Read does, on any other status and on a transport
  failure it returns the wrapped error and the unchanged resource data. The requests
  Update adds to the history are the POST, followed by the one GET of Read exactly when
  the POST was answered with status 204.
\<close>

theorem C8_update_request_then_one_read:
  "updateURL d m =
     (sonarQubeURL m)\<lparr>Path := ''api/webhooks/update'',
        RawQuery := Encode ([(''webhook'', [d_Id d]), (''name'', [d_Get d ''name'']),
                             (''url'', [d_Get d ''url''])]
                            @ (if snd (d_GetOk d ''project'')
                               then [(''project'', [fst (d_GetOk d ''project'')])] else [])
                            @ (if snd (d_GetOk d ''secret'')
                               then [(''secret'', [fst (d_GetOk d ''secret'')])] else []))\<rparr>
   \<and> resourceSonarqubeWebhookUpdate d m h =
       (case httpClient m h \<lparr>Method = ''POST'', Target = updateURL d m\<rparr> of
          Response status b \<Rightarrow>
            if status = StatusNoContent
            then resourceSonarqubeWebhookRead d m
                   (h @ [\<lparr>Method = ''POST'', Target = updateURL d m\<rparr>])
            else (Some (Errorf ''Error updating Sonarqube webhook: %+v''
                          (Some (StatusError ''resourceSonarqubeWebhookUpdate'' StatusNoContent status))),
                  d, h @ [\<lparr>Method = ''POST'', Target = updateURL d m\<rparr>])
        | Failed cause \<Rightarrow>
            (Some (Errorf ''Error updating Sonarqube webhook: %+v''
                     (Some (TransportError ''resourceSonarqubeWebhookUpdate'' cause))),
             d, h @ [\<lparr>Method = ''POST'', Target = updateURL d m\<rparr>]))
   \<and> snd (snd (resourceSonarqubeWebhookUpdate d m h)) =
       h @ [\<lparr>Method = ''POST'', Target = updateURL d m\<rparr>]
         @ (case httpClient m h \<lparr>Method = ''POST'', Target = updateURL d m\<rparr> of
              Response status b \<Rightarrow>
                if status = StatusNoContent
                then [\<lparr>Method = ''GET'', Target = listURL d m\<rparr>] else []
            | Failed cause \<Rightarrow> [])"
proof -
  let ?post = "\<lparr>Method = ''POST'', Target = updateURL d m\<rparr>"
  have upd: "resourceSonarqubeWebhookUpdate d m h =
       (case httpClient m h ?post of
          Response status b \<Rightarrow>
            if status = StatusNoContent
            then resourceSonarqubeWebhookRead d m (h @ [?post])
            else (Some (Errorf ''Error updating Sonarqube webhook: %+v''
                          (Some (StatusError ''resourceSonarqubeWebhookUpdate'' StatusNoContent status))),
                  d, h @ [?post])
        | Failed cause \<Rightarrow>
            (Some (Errorf ''Error updating Sonarqube webhook: %+v''
                     (Some (TransportError ''resourceSonarqubeWebhookUpdate'' cause))),
             d, h @ [?post]))"
    by (simp add: resourceSonarqubeWebhookUpdate_def httpRequestHelper_def
          split: http_result.splits)
  have "snd (snd (resourceSonarqubeWebhookUpdate d m h)) =
       h @ [?post]
         @ (case httpClient m h ?post of
              Response status b \<Rightarrow>
                if status = StatusNoContent
                then [\<lparr>Method = ''GET'', Target = listURL d m\<rparr>] else []
            | Failed cause \<Rightarrow> [])"
    unfolding upd by (simp add: Read_history split: http_result.splits)
  with upd updateURL_eq [of d m] show ?thesis by blast
qed

text \<open>
  The update of \<open>AV1\<close> with a secret set: the query, the refreshed resource data when the
  server answers 204 and lists the webhook under its new name, and the single request
  when the server answers 400.
\<close>

theorem C8_update_request_then_one_read_witness:
  "updateURL (d_Set hook1 ''secret'' ''s3cr3t'') (sonar []) =
     \<lparr>Base = ''https://sonar.example'', Path = ''api/webhooks/update'',
      RawQuery = ''name=build-notify&secret=s3cr3t&url=https%3A%2F%2Fci.example%2Fhook&webhook=AV1''\<rparr>
   \<and> resourceSonarqubeWebhookUpdate hook1
        (sonar [Response 204 (not_json ''EOF''), Response 200 (json_list [served1])]) []
      = (None,
         \<lparr>ident = ''AV1'',
          attrs = [''name'' \<mapsto> ''renamed'', ''url'' \<mapsto> ''https://ci.example/hook2'',
                   ''key'' \<mapsto> ''AV1'', ''secret'' \<mapsto> []]\<rparr>,
         [\<lparr>Method = ''POST'',
           Target = \<lparr>Base = ''https://sonar.example'', Path = ''api/webhooks/update'',
                     RawQuery = ''name=build-notify&url=https%3A%2F%2Fci.example%2Fhook&webhook=AV1''\<rparr>\<rparr>,
          \<lparr>Method = ''GET'',
           Target = \<lparr>Base = ''https://sonar.example'', Path = ''api/webhooks/list'',
                     RawQuery = []\<rparr>\<rparr>])
   \<and> resourceSonarqubeWebhookUpdate hook1
        (sonar [Response 400 (not_json ''EOF''), Response 200 (json_list [served1])]) []
      = (Some (Errorf ''Error updating Sonarqube webhook: %+v''
                 (Some (StatusError ''resourceSonarqubeWebhookUpdate'' 204 400))),
         hook1,
         [\<lparr>Method = ''POST'',
           Target = \<lparr>Base = ''https://sonar.example'', Path = ''api/webhooks/update'',
                     RawQuery = ''name=build-notify&url=https%3A%2F%2Fci.example%2Fhook&webhook=AV1''\<rparr>\<rparr>])"
proof -
  let ?post = "\<lparr>Method = ''POST'',
                Target = \<lparr>Base = ''https://sonar.example'', Path = ''api/webhooks/update'',
                          RawQuery = ''name=build-notify&url=https%3A%2F%2Fci.example%2Fhook&webhook=AV1''\<rparr>\<rparr>"
  have u1: "updateURL (d_Set hook1 ''secret'' ''s3cr3t'') (sonar []) =
     \<lparr>Base = ''https://sonar.example'', Path = ''api/webhooks/update'',
      RawQuery = ''name=build-notify&secret=s3cr3t&url=https%3A%2F%2Fci.example%2Fhook&webhook=AV1''\<rparr>"
    using C8_update_request_then_one_read
            [of "d_Set hook1 ''secret'' ''s3cr3t''" "sonar []", THEN conjunct1]
    by (simp add: eval_defs encode_defs)
  have u2: "updateURL hook1 (sonar rs) = Target ?post" for rs
    by (simp add: eval_defs encode_defs)
  have rd: "resourceSonarqubeWebhookRead hook1
              (sonar [Response 204 (not_json ''EOF''), Response 200 (json_list [served1])]) [?post]
            = (None,
               \<lparr>ident = ''AV1'',
                attrs = [''name'' \<mapsto> ''renamed'', ''url'' \<mapsto> ''https://ci.example/hook2'',
                         ''key'' \<mapsto> ''AV1'', ''secret'' \<mapsto> []]\<rparr>,
               [?post,
                \<lparr>Method = ''GET'',
                 Target = \<lparr>Base = ''https://sonar.example'', Path = ''api/webhooks/list'',
                           RawQuery = []\<rparr>\<rparr>])"
    by (simp add: resourceSonarqubeWebhookRead_def eval_defs fun_upd_twist)
  show ?thesis
    using C8_update_request_then_one_read
            [of hook1 "sonar [Response 204 (not_json ''EOF''), Response 200 (json_list [served1])]"
                "[]", THEN conjunct2, THEN conjunct1]
          C8_update_request_then_one_read
            [of hook1 "sonar [Response 400 (not_json ''EOF''), Response 200 (json_list [served1])]"
                "[]", THEN conjunct2, THEN conjunct1]
          u1 rd
    unfolding u2 by (simp add: sonar_def scripted_def)
qed

subsection \<open>Import\<close>

text \<open>
  C9. Import is Read: the error Import returns is the error Read returns on the same
  resource data (so Import fails exactly when Read does), the resource data and the
  history it leaves are those Read leaves, and the slice it returns holds exactly that
  resource data when Read returned no error and is nil otherwise.
\<close>

theorem C9_import_delegates_to_read:
  "snd (fst (resourceSonarqubeWebhookImport d m h)) = fst (resourceSonarqubeWebhookRead d m h)
   \<and> snd (resourceSonarqubeWebhookImport d m h) = snd (resourceSonarqubeWebhookRead d m h)
   \<and> fst (fst (resourceSonarqubeWebhookImport d m h)) =
       (case fst (resourceSonarqubeWebhookRead d m h) of
          None \<Rightarrow> [fst (snd (resourceSonarqubeWebhookRead d m h))]
        | Some err \<Rightarrow> [])"
  by (simp add: resourceSonarqubeWebhookImport_def split: prod.splits option.splits)

text \<open>
  The import of \<open>AV1\<close> from a server that lists it, and from a server that answers the
  list request with status 503.
\<close>

theorem C9_import_delegates_to_read_witness:
  "resourceSonarqubeWebhookImport \<lparr>ident = ''AV1'', attrs = Map.empty\<rparr>
       (sonar [Response 200 (json_list [served1])]) []
     = (([\<lparr>ident = ''AV1'',
           attrs = [''key'' \<mapsto> ''AV1'', ''name'' \<mapsto> ''renamed'',
                    ''url'' \<mapsto> ''https://ci.example/hook2'', ''secret'' \<mapsto> []]\<rparr>], None),
        \<lparr>ident = ''AV1'',
         attrs = [''key'' \<mapsto> ''AV1'', ''name'' \<mapsto> ''renamed'',
                  ''url'' \<mapsto> ''https://ci.example/hook2'', ''secret'' \<mapsto> []]\<rparr>,
        [\<lparr>Method = ''GET'',
          Target = \<lparr>Base = ''https://sonar.example'', Path = ''api/webhooks/list'',
                    RawQuery = []\<rparr>\<rparr>])
   \<and> resourceSonarqubeWebhookImport \<lparr>ident = ''AV1'', attrs = Map.empty\<rparr>
       (sonar [Response 503 (not_json ''EOF'')]) []
     = (([], Some (StatusError ''resourceSonarqubeWebhookRead'' 200 503)),
        \<lparr>ident = ''AV1'', attrs = Map.empty\<rparr>,
        [\<lparr>Method = ''GET'',
          Target = \<lparr>Base = ''https://sonar.example'', Path = ''api/webhooks/list'',
                    RawQuery = []\<rparr>\<rparr>])"
proof -
  let ?d = "\<lparr>ident = ''AV1'', attrs = Map.empty\<rparr>"
  let ?get = "\<lparr>Method = ''GET'',
               Target = \<lparr>Base = ''https://sonar.example'', Path = ''api/webhooks/list'',
                         RawQuery = []\<rparr>\<rparr>"
  have r1: "resourceSonarqubeWebhookRead ?d (sonar [Response 200 (json_list [served1])]) []
            = (None,
               \<lparr>ident = ''AV1'',
                attrs = [''key'' \<mapsto> ''AV1'', ''name'' \<mapsto> ''renamed'',
                         ''url'' \<mapsto> ''https://ci.example/hook2'', ''secret'' \<mapsto> []]\<rparr>,
               [?get])"
    by (simp add: resourceSonarqubeWebhookRead_def eval_defs)
  have r2: "resourceSonarqubeWebhookRead ?d (sonar [Response 503 (not_json ''EOF'')]) []
            = (Some (StatusError ''resourceSonarqubeWebhookRead'' 200 503), ?d, [?get])"
    by (simp add: resourceSonarqubeWebhookRead_def eval_defs)
  show ?thesis
    using C9_import_delegates_to_read [of ?d "sonar [Response 200 (json_list [served1])]" "[]"]
          C9_import_delegates_to_read [of ?d "sonar [Response 503 (not_json ''EOF'')]" "[]"]
    unfolding r1 r2 by (simp add: prod_eq_iff)
qed

text \<open>
  C10. Whenever the list request of the Read inside Import is answered and the body
  decodes, and no entry of the list has the imported identifier as its key, Import
  returns no error, and the one resource data it returns has the identifier cleared.
\<close>

theorem C10_import_of_unlisted_webhook_succeeds:
  assumes "httpRequestHelper (httpClient m) ''GET'' (listURL d m) StatusOK
             ''resourceSonarqubeWebhookRead'' h = (Inr resp, h')"
    and "Decode_GetWebhooks resp = Inr gw"
    and "\<forall>v \<in> set (Webhooks gw). Key v \<noteq> d_Id d"
  shows "resourceSonarqubeWebhookImport d m h =
           (([d\<lparr>ident := []\<rparr>], None), d\<lparr>ident := []\<rparr>, h')"
  using Read_absent [OF assms] by (simp add: resourceSonarqubeWebhookImport_def d_SetId_def)

text \<open>
  The import of the identifier \<open>nope\<close> from a server that lists \<open>AV1\<close> and \<open>AV2\<close>.
\<close>

theorem C10_import_of_unlisted_webhook_succeeds_witness:
  "httpRequestHelper (httpClient (sonar [Response 200 (json_list [served1, served2])])) ''GET''
       (listURL \<lparr>ident = ''nope'', attrs = Map.empty\<rparr>
          (sonar [Response 200 (json_list [served1, served2])])) StatusOK
       ''resourceSonarqubeWebhookRead'' []
     = (Inr (json_list [served1, served2]),
        [\<lparr>Method = ''GET'',
          Target = \<lparr>Base = ''https://sonar.example'', Path = ''api/webhooks/list'',
                    RawQuery = []\<rparr>\<rparr>])
   \<and> Decode_GetWebhooks (json_list [served1, served2]) = Inr \<lparr>Webhooks = [served1, served2]\<rparr>
   \<and> Key served1 \<noteq> ''nope'' \<and> Key served2 \<noteq> ''nope''
   \<and> resourceSonarqubeWebhookImport \<lparr>ident = ''nope'', attrs = Map.empty\<rparr>
        (sonar [Response 200 (json_list [served1, served2])]) []
     = (([\<lparr>ident = [], attrs = Map.empty\<rparr>], None),
        \<lparr>ident = [], attrs = Map.empty\<rparr>,
        [\<lparr>Method = ''GET'',
          Target = \<lparr>Base = ''https://sonar.example'', Path = ''api/webhooks/list'',
                    RawQuery = []\<rparr>\<rparr>])"
proof -
  let ?d = "\<lparr>ident = ''nope'', attrs = Map.empty\<rparr>"
  let ?m = "sonar [Response 200 (json_list [served1, served2])]"
  let ?get = "\<lparr>Method = ''GET'',
               Target = \<lparr>Base = ''https://sonar.example'', Path = ''api/webhooks/list'',
                         RawQuery = []\<rparr>\<rparr>"
  have a: "httpRequestHelper (httpClient ?m) ''GET'' (listURL ?d ?m) StatusOK
             ''resourceSonarqubeWebhookRead'' [] = (Inr (json_list [served1, served2]), [?get])"
    by (simp add: eval_defs)
  have b: "Decode_GetWebhooks (json_list [served1, served2])
           = Inr \<lparr>Webhooks = [served1, served2]\<rparr>"
    by (simp add: json_list_def)
  have k: "Key served1 \<noteq> ''nope''" "Key served2 \<noteq> ''nope''"
    by (simp_all add: served1_def served2_def)
  then have c: "\<forall>v \<in> set (Webhooks \<lparr>Webhooks = [served1, served2]\<rparr>). Key v \<noteq> d_Id ?d"
    by (simp add: d_Id_def)
  from C10_import_of_unlisted_webhook_succeeds [OF a b c] a b k show ?thesis
    by simp
qed

end
